theory Spec2Isabelle
  imports Complex_Main
begin

section \<open>The 4Runr Gateway SDK for Python: errors, retry pipeline, client\<close>

text \<open>
  A shallow embedding of \<^verbatim>\<open>sdk-py/runrgateway\<close>: the error classes and the
  classifier of \<^verbatim>\<open>errors.py\<close>, the retry utilities of \<^verbatim>\<open>utils/retry.py\<close> and the
  token check and request dispatch of \<^verbatim>\<open>client.py\<close>.

  Conventions. Python's \<^verbatim>\<open>int\<close> is \<^typ>\<open>int\<close>. Python's \<^verbatim>\<open>float\<close> is idealised as
  \<^typ>\<open>real\<close>: rounding, overflow, infinities and NaN are not modelled. A \<^verbatim>\<open>str\<close> is a
  \<^typ>\<open>string\<close> of bytes. A raised exception is the \<open>Inl\<close> of a sum. The exceptions
  modelled are instances of \<^verbatim>\<open>Exception\<close>, the ones \<^verbatim>\<open>except Exception\<close> catches;
  interpreter signals that derive from \<^verbatim>\<open>BaseException\<close> only (cancellation, keyboard
  interrupt) are outside the model.
\<close>

subsection \<open>errors.py: the error classes\<close>

text \<open>
  The class of an error object is its \<open>kind\<close>; \<open>Generic\<close> is the base class
  \<^verbatim>\<open>GatewayError\<close> itself. The record holds the attributes the constructors set.
  \<open>retry_after\<close> exists on rate-limit errors and \<open>original_error\<close> on network errors;
  elsewhere the fields are \<open>None\<close>.
\<close>

datatype error_kind = Generic | Auth | Policy | RateLimit | Upstream | Network | Token

record gateway_error =
  kind :: error_kind
  message :: string
  status_code :: "int option"
  code :: "string option"
  retry_after :: "int option"
  original_error :: "string option"

definition GatewayError :: "string \<Rightarrow> int option \<Rightarrow> string option \<Rightarrow> gateway_error" where
  "GatewayError msg sc c =
     \<lparr>kind = Generic, message = msg, status_code = sc, code = c,
      retry_after = None, original_error = None\<rparr>"

definition GatewayAuthError :: "string \<Rightarrow> int option \<Rightarrow> gateway_error" where
  "GatewayAuthError msg sc = (GatewayError msg sc (Some ''AUTH_ERROR''))\<lparr>kind := Auth\<rparr>"

definition GatewayPolicyError :: "string \<Rightarrow> int option \<Rightarrow> gateway_error" where
  "GatewayPolicyError msg sc = (GatewayError msg sc (Some ''POLICY_ERROR''))\<lparr>kind := Policy\<rparr>"

definition GatewayRateLimitError :: "string \<Rightarrow> int option \<Rightarrow> int option \<Rightarrow> gateway_error" where
  "GatewayRateLimitError msg ra sc =
     (GatewayError msg sc (Some ''RATE_LIMIT_ERROR''))\<lparr>kind := RateLimit, retry_after := ra\<rparr>"

definition GatewayUpstreamError :: "string \<Rightarrow> int option \<Rightarrow> gateway_error" where
  "GatewayUpstreamError msg sc = (GatewayError msg sc (Some ''UPSTREAM_ERROR''))\<lparr>kind := Upstream\<rparr>"

definition GatewayNetworkError :: "string \<Rightarrow> string option \<Rightarrow> gateway_error" where
  "GatewayNetworkError msg orig =
     (GatewayError msg None (Some ''NETWORK_ERROR''))\<lparr>kind := Network, original_error := orig\<rparr>"

definition GatewayTokenError :: "string \<Rightarrow> int option \<Rightarrow> gateway_error" where
  "GatewayTokenError msg sc = (GatewayError msg sc (Some ''TOKEN_ERROR''))\<lparr>kind := Token\<rparr>"

text \<open>
  What a call can raise: a gateway error, or another exception, named by its class
  (\<^verbatim>\<open>ValueError\<close>, \<^verbatim>\<open>UnboundLocalError\<close>, ...).
\<close>

datatype exn = GatewayExc gateway_error | OtherExc string

subsection \<open>Python built-ins used by the classifier\<close>

text \<open>
  \<^verbatim>\<open>str.lower()\<close> on the ASCII letters. The two non-ASCII characters whose lower case
  contains an ASCII letter (U+0130, U+212A) cannot complete an occurrence of
  \<^verbatim>\<open>policy\<close> or \<^verbatim>\<open>scope\<close>, so on the bytes of a message the test below agrees with
  Python's.
\<close>

definition lower_char :: "char \<Rightarrow> char" where
  "lower_char c =
     (case map_of (zip ''ABCDEFGHIJKLMNOPQRSTUVWXYZ'' ''abcdefghijklmnopqrstuvwxyz'') c of
        Some l \<Rightarrow> l
      | None \<Rightarrow> c)"

definition lower :: "string \<Rightarrow> string" where
  "lower s = map lower_char s"

fun starts_with :: "string \<Rightarrow> string \<Rightarrow> bool" where
  "starts_with [] s = True"
| "starts_with (p # ps) [] = False"
| "starts_with (p # ps) (c # cs) = (p = c \<and> starts_with ps cs)"

text \<open>\<^verbatim>\<open>sub in s\<close> on strings: \<open>sub\<close> occurs in \<open>s\<close> as a contiguous block.\<close>

fun str_in :: "string \<Rightarrow> string \<Rightarrow> bool" where
  "str_in sub [] = (sub = [])"
| "str_in sub (c # cs) = (starts_with sub (c # cs) \<or> str_in sub cs)"

text \<open>
  \<^verbatim>\<open>int(s)\<close> on a string, for ASCII input: surrounding whitespace is stripped, one sign
  is allowed, then decimal digits, with single underscores allowed between digits.
  \<open>None\<close> is the \<^verbatim>\<open>ValueError\<close> that \<^verbatim>\<open>int\<close> raises on anything else.
\<close>

definition is_space :: "char \<Rightarrow> bool" where
  "is_space c = (c \<in> set [CHR '' '', CHR 0x09, CHR 0x0A, CHR 0x0B, CHR 0x0C, CHR 0x0D])"

definition is_digit :: "char \<Rightarrow> bool" where
  "is_digit c = (c \<in> set ''0123456789'')"

definition digit_val :: "char \<Rightarrow> int" where
  "digit_val c =
     (case map_of (zip ''0123456789'' [0, 1, 2, 3, 4, 5, 6, 7, 8, 9]) c of
        Some d \<Rightarrow> d
      | None \<Rightarrow> 0)"

definition strip :: "string \<Rightarrow> string" where
  "strip s = rev (dropWhile is_space (rev (dropWhile is_space s)))"

fun digit_groups :: "string \<Rightarrow> bool" where
  "digit_groups [] = False"
| "digit_groups [c] = is_digit c"
| "digit_groups (c # d # cs) =
     (if is_digit c then
        (if d = CHR ''_'' then digit_groups cs else digit_groups (d # cs))
      else False)"

definition digits_value :: "string \<Rightarrow> int" where
  "digits_value s = foldl (\<lambda>a c. 10 * a + digit_val c) 0 (filter (\<lambda>c. c \<noteq> CHR ''_'') s)"

definition unsigned_int :: "string \<Rightarrow> int option" where
  "unsigned_int s = (if digit_groups s then Some (digits_value s) else None)"

definition py_int :: "string \<Rightarrow> int option" where
  "py_int s =
     (case strip s of
        [] \<Rightarrow> None
      | c # cs \<Rightarrow>
          (if c = CHR ''-'' then map_option uminus (unsigned_int cs)
           else if c = CHR ''+'' then unsigned_int cs
           else unsigned_int (c # cs)))"

subsection \<open>errors.py: create\_error\_from\_response\<close>

text \<open>
  \<^verbatim>\<open>int(retry_after) if retry_after else None\<close>: an absent or empty header gives \<open>None\<close>;
  any other header goes through \<^verbatim>\<open>int\<close>, whose \<^verbatim>\<open>ValueError\<close> is not caught and
  leaves the classifier.
\<close>

definition create_error_from_response :: "int \<Rightarrow> string \<Rightarrow> string option \<Rightarrow> exn + gateway_error" where
  "create_error_from_response sc error_message ra =
     (if sc = 401 \<or> sc = 403 then Inr (GatewayAuthError error_message (Some sc))
      else if sc = 429 then
        (case ra of
           None \<Rightarrow> Inr (GatewayRateLimitError error_message None (Some sc))
         | Some h \<Rightarrow>
             (if h = [] then Inr (GatewayRateLimitError error_message None (Some sc))
              else (case py_int h of
                      None \<Rightarrow> Inl (OtherExc ''ValueError'')
                    | Some n \<Rightarrow> Inr (GatewayRateLimitError error_message (Some n) (Some sc)))))
      else if sc = 400 then
        (if str_in ''policy'' (lower error_message) \<or> str_in ''scope'' (lower error_message)
         then Inr (GatewayPolicyError error_message (Some sc))
         else Inr (GatewayError error_message (Some sc) None))
      else if sc = 502 \<or> sc = 503 \<or> sc = 504 then Inr (GatewayUpstreamError error_message (Some sc))
      else Inr (GatewayError error_message (Some sc) None))"

subsection \<open>utils/retry.py\<close>

record retry_options =
  max_retries :: int
  base_delay :: real
  max_delay :: real
  jitter :: bool

text \<open>The defaults of \<^verbatim>\<open>RetryOptions()\<close>.\<close>

definition RetryOptions :: retry_options where
  "RetryOptions = \<lparr>max_retries = 3, base_delay = 1, max_delay = 10, jitter = True\<rparr>"

text \<open>
  \<^verbatim>\<open>error.status_code and error.status_code >= 500\<close>: \<open>None\<close> and \<open>0\<close> are falsy.
\<close>

definition is_retryable_error :: "gateway_error \<Rightarrow> bool" where
  "is_retryable_error error =
     (if kind error = RateLimit then False
      else if code error = Some ''NETWORK_ERROR'' then True
      else if kind error = Upstream then True
      else (case status_code error of
              None \<Rightarrow> False
            | Some sc \<Rightarrow> sc \<noteq> 0 \<and> sc \<ge> 500))"

text \<open>
  \<open>r\<close> is the value \<^verbatim>\<open>random.random()\<close> returns, a number in \<open>[0, 1)\<close>; it is read only
  when \<open>jitter\<close> is set. \<^verbatim>\<open>2 ** attempt\<close> is \<open>2 powi attempt\<close>, also for a negative
  attempt.
\<close>

definition calculate_delay :: "int \<Rightarrow> retry_options \<Rightarrow> real \<Rightarrow> real" where
  "calculate_delay attempt options r =
     (let delay = min (base_delay options * (2 powi attempt)) (max_delay options)
      in if jitter options
         then (let jit = delay * 0.25 * (r - 0.5) in max 0 (delay + jit))
         else delay)"

text \<open>
  A run of the pipeline. \<open>state\<close> is whatever the operation works on; \<open>calls\<close> counts
  the invocations of the operation and \<open>sleeps\<close> lists the delays passed to
  \<^verbatim>\<open>asyncio.sleep\<close>, oldest first. An operation takes the state and returns what it
  raised or returned, with the new state; awaiting a coroutine result happens inside
  the same \<^verbatim>\<open>try\<close>, so it is part of the operation.
\<close>

record 's run =
  state :: 's
  calls :: nat
  sleeps :: "real list"

type_synonym ('s, 'a) operation = "'s \<Rightarrow> (exn + 'a) \<times> 's"

text \<open>
  The \<^verbatim>\<open>for attempt in range(options.max_retries + 1)\<close> loop, from iteration
  \<open>attempt\<close> with \<open>n\<close> iterations left. \<open>last_error\<close> is \<open>None\<close> while the variable is
  unbound. \<open>rnd attempt\<close> is the random number drawn in iteration \<open>attempt\<close>.
\<close>

fun retry_loop ::
  "(int \<Rightarrow> real) \<Rightarrow> ('s, 'a) operation \<Rightarrow> retry_options \<Rightarrow> nat \<Rightarrow> int \<Rightarrow> exn option \<Rightarrow> 's run
     \<Rightarrow> (exn + 'a) \<times> 's run" where
  "retry_loop rnd fn options 0 attempt last_error w =
     (case last_error of
        None \<Rightarrow> (Inl (OtherExc ''UnboundLocalError''), w)
      | Some e \<Rightarrow> (Inl e, w))"
| "retry_loop rnd fn options (Suc n) attempt last_error w =
     (case fn (state w) of
        (Inr result, s') \<Rightarrow> (Inr result, w\<lparr>state := s', calls := Suc (calls w)\<rparr>)
      | (Inl error, s') \<Rightarrow>
          (let w' = w\<lparr>state := s', calls := Suc (calls w)\<rparr> in
           if attempt = max_retries options then (Inl error, w')
           else if (case error of GatewayExc g \<Rightarrow> \<not> is_retryable_error g | OtherExc x \<Rightarrow> False)
             then (Inl error, w')
           else retry_loop rnd fn options n (attempt + 1) (Some error)
                  (w'\<lparr>sleeps := sleeps w' @ [calculate_delay attempt options (rnd attempt)]\<rparr>)))"

definition with_retry ::
  "(int \<Rightarrow> real) \<Rightarrow> ('s, 'a) operation \<Rightarrow> retry_options \<Rightarrow> 's \<Rightarrow> (exn + 'a) \<times> 's run" where
  "with_retry rnd fn options s =
     retry_loop rnd fn options (nat (max_retries options + 1)) 0 None
       \<lparr>state = s, calls = 0, sleeps = []\<rparr>"







subsection \<open>client.py: values, requests and the environment\<close>

text \<open>
  A JSON value, which is also the Python value \<^verbatim>\<open>json.loads\<close> returns. An object is
  the list of the items of the \<^verbatim>\<open>dict\<close>, with distinct keys.
\<close>

datatype json =
    JNull
  | JBool bool
  | JInt int
  | JFloat real
  | JStr string
  | JList "json list"
  | JObj "(string \<times> json) list"

text \<open>Python truthiness, as \<^verbatim>\<open>if token:\<close> and \<^verbatim>\<open>if not token:\<close> test it.\<close>

fun truthy :: "json \<Rightarrow> bool" where
  "truthy JNull = False"
| "truthy (JBool b) = b"
| "truthy (JInt i) = (i \<noteq> 0)"
| "truthy (JFloat x) = (x \<noteq> 0)"
| "truthy (JStr s) = (s \<noteq> [])"
| "truthy (JList xs) = (xs \<noteq> [])"
| "truthy (JObj kvs) = (kvs \<noteq> [])"

record request =
  url :: string
  http_method :: string
  json_body :: "json option"
  headers :: "(string \<times> string) list"

text \<open>
  An \<^verbatim>\<open>httpx.Response\<close>: \<open>content\<close> is the raw body and \<open>resp_json\<close> what
  \<^verbatim>\<open>response.json()\<close> returns (\<open>None\<close>: it raises).
\<close>

record response =
  resp_status :: int
  content :: string
  resp_json :: "json option"
  resp_headers :: "(string \<times> string) list"

text \<open>What one call of \<^verbatim>\<open>self._client.request\<close> does: it returns a response or raises an
  \<^verbatim>\<open>httpx.RequestError\<close> with the given text.\<close>

datatype http_result = Response response | RequestError string

text \<open>
  Everything outside the package that the client reads.
  \<^item> \<open>transport k req\<close>: the result of sending \<open>req\<close> when \<open>k\<close> requests were sent before;
  \<^item> \<open>clock k\<close>: what \<^verbatim>\<open>time.time()\<close> returns at the client's reading number \<open>k\<close>, in seconds;
  \<^item> \<open>b64_json x\<close>: \<^verbatim>\<open>json.loads(base64.b64decode(x).decode())\<close>, \<open>None\<close> when one of
    the three raises;
  \<^item> \<open>draw k a\<close>: the random number drawn for the delay of attempt \<open>a\<close>, in the pipeline
    run that started when \<open>k\<close> requests had been sent;
  \<^item> \<open>correlation k\<close>: what \<^verbatim>\<open>generate_correlation_id()\<close> returns when \<open>k\<close> requests
    had been sent;
  \<^item> \<open>isoformat t\<close>: \<^verbatim>\<open>datetime.fromtimestamp(t).isoformat()\<close>;
  \<^item> \<open>json_dumps v\<close>: \<^verbatim>\<open>json.dumps(v)\<close>;
  \<^item> \<open>proxy_response_data v\<close>: \<^verbatim>\<open>ProxyResponse(**v).data\<close>, the validation of the response
    envelope by pydantic (\<open>Inl\<close>: what the construction raises).
\<close>

record env =
  transport :: "nat \<Rightarrow> request \<Rightarrow> http_result"
  clock :: "nat \<Rightarrow> real"
  b64_json :: "string \<Rightarrow> json option"
  draw :: "nat \<Rightarrow> int \<Rightarrow> real"
  correlation :: "nat \<Rightarrow> string"
  isoformat :: "real \<Rightarrow> string"
  json_dumps :: "json \<Rightarrow> string"
  proxy_response_data :: "json \<Rightarrow> exn + json"

text \<open>
  What the client has done so far: the requests handed to the transport, oldest first,
  the number of clock readings, the delays slept and the lines printed.
\<close>

record world =
  sent :: "request list"
  clock_reads :: nat
  waited :: "real list"
  printed :: "string list"

record client =
  base_url :: string
  agent_id :: string
  agent_private_key_pem :: string
  default_intent :: "string option"
  timeout_ms :: int
  current_intent :: string

subsection \<open>client.py: Python built-ins used by the client\<close>

text \<open>\<^verbatim>\<open>s.split(".")\<close>: the segments between the dots; never the empty list.\<close>

fun split_dot :: "string \<Rightarrow> string list" where
  "split_dot [] = [[]]"
| "split_dot (c # cs) =
     (if c = CHR ''.'' then [] # split_dot cs
      else (case split_dot cs of
              [] \<Rightarrow> [[c]]
            | p # ps \<Rightarrow> (c # p) # ps))"

text \<open>\<^verbatim>\<open>int(x)\<close> on a float: truncation towards zero.\<close>

definition trunc :: "real \<Rightarrow> int" where
  "trunc x = (if 0 \<le> x then \<lfloor>x\<rfloor> else \<lceil>x\<rceil>)"

text \<open>\<^verbatim>\<open>str(n)\<close> on an integer, for the message \<^verbatim>\<open>f"HTTP {status_code}"\<close>.\<close>

function show_nat :: "nat \<Rightarrow> string" where
  "show_nat n =
     (if n < 10 then [''0123456789'' ! n]
      else show_nat (n div 10) @ [''0123456789'' ! (n mod 10)])"
  by pat_completeness auto
termination
  by (relation "measure id") auto

definition show_int :: "int \<Rightarrow> string" where
  "show_int i = (if i < 0 then CHR ''-'' # show_nat (nat (- i)) else show_nat (nat i))"

text \<open>\<^verbatim>\<open>response.is_success\<close> of httpx: a status from 200 to 299.\<close>

definition is_success :: "response \<Rightarrow> bool" where
  "is_success r = (200 \<le> resp_status r \<and> resp_status r \<le> 299)"

text \<open>\<^verbatim>\<open>response.headers.get(name)\<close>: header names compare without case.\<close>

definition header_get :: "(string \<times> string) list \<Rightarrow> string \<Rightarrow> string option" where
  "header_get hs name = map_of (map (\<lambda>(k, v). (lower k, v)) hs) (lower name)"

subsection \<open>client.py: \_make\_request\<close>

text \<open>
  The message of a failed response:
  \<^verbatim>\<open>error_data = response.json() if response.content else {"error": "Unknown error"}\<close>, then
  \<^verbatim>\<open>error_data.get("error", f"HTTP {response.status_code}")\<close>. The classifier takes a
  \<^verbatim>\<open>str\<close>; an \<^verbatim>\<open>error\<close> member of another type is not a message of the wire contract
  and the model stops there with a \<^verbatim>\<open>TypeError\<close>.
\<close>

definition error_message :: "response \<Rightarrow> exn + string" where
  "error_message r =
     (if content r = [] then Inr ''Unknown error''
      else (case resp_json r of
              None \<Rightarrow> Inl (OtherExc ''JSONDecodeError'')
            | Some (JObj kvs) \<Rightarrow>
                (case map_of kvs ''error'' of
                   None \<Rightarrow> Inr (''HTTP '' @ show_int (resp_status r))
                 | Some (JStr m) \<Rightarrow> Inr m
                 | Some v \<Rightarrow> Inl (OtherExc ''TypeError''))
            | Some v \<Rightarrow> Inl (OtherExc ''AttributeError'')))"

text \<open>
  The inner \<^verbatim>\<open>_request\<close>, one physical attempt: the request goes to the transport and is
  logged in \<open>sent\<close>. A transport fault becomes a \<^verbatim>\<open>GatewayError\<close> with code
  \<^verbatim>\<open>NETWORK_ERROR\<close>; a response that is not a success is classified and raised.
\<close>

definition request_once :: "env \<Rightarrow> request \<Rightarrow> (world, response) operation" where
  "request_once e req w =
     (let w' = w\<lparr>sent := sent w @ [req]\<rparr> in
      case transport e (length (sent w)) req of
        RequestError m \<Rightarrow>
          (Inl (GatewayExc (GatewayError (''Network error: '' @ m) None (Some ''NETWORK_ERROR''))), w')
      | Response r \<Rightarrow>
          (if \<not> is_success r then
             (case error_message r of
                Inl x \<Rightarrow> (Inl x, w')
              | Inr m \<Rightarrow>
                  (case create_error_from_response (resp_status r) m
                          (header_get (resp_headers r) ''Retry-After'') of
                     Inl x \<Rightarrow> (Inl x, w')
                   | Inr g \<Rightarrow> (Inl (GatewayExc g), w')))
           else (Inr r, w')))"

text \<open>
  \<^verbatim>\<open>_make_request\<close>: one correlation id, then \<^verbatim>\<open>with_retry(_request)\<close> with the default
  options. The delays slept are appended to \<open>waited\<close>.
\<close>

definition make_request ::
  "env \<Rightarrow> client \<Rightarrow> string \<Rightarrow> string \<Rightarrow> json option \<Rightarrow> world \<Rightarrow> (exn + response) \<times> world" where
  "make_request e c path method body w =
     (let k = length (sent w);
          req = \<lparr>url = base_url c @ path, http_method = method, json_body = body,
                 headers = [(''X-Correlation-Id'', correlation e k)]\<rparr>
      in case with_retry (draw e k) (request_once e req) RetryOptions w of
           (res, r) \<Rightarrow> (res, (state r)\<lparr>waited := waited (state r) @ sleeps r\<rparr>))"

subsection \<open>client.py: get\_token and \_get\_token\_age\<close>

definition get_token ::
  "env \<Rightarrow> client \<Rightarrow> string list \<Rightarrow> string list \<Rightarrow> int \<Rightarrow> world \<Rightarrow> (exn + json) \<times> world" where
  "get_token e c tools permissions ttl_minutes w =
     (let expires_at = isoformat e (clock e (clock_reads w) + of_int (ttl_minutes * 60));
          w1 = w\<lparr>clock_reads := Suc (clock_reads w)\<rparr>;
          body = JObj [(''agent_id'', JStr (agent_id c)),
                       (''tools'', JList (map JStr tools)),
                       (''permissions'', JList (map JStr permissions)),
                       (''expires_at'', JStr expires_at)]
      in case make_request e c ''/api/generate-token'' ''POST'' (Some body) w1 of
           (Inl x, w2) \<Rightarrow> (Inl x, w2)
         | (Inr r, w2) \<Rightarrow>
             (case resp_json r of
                None \<Rightarrow> (Inl (OtherExc ''JSONDecodeError''), w2)
              | Some (JObj kvs) \<Rightarrow>
                  (case map_of kvs ''agent_token'' of
                     None \<Rightarrow> (Inl (OtherExc ''KeyError''), w2)
                   | Some v \<Rightarrow> (Inr v, w2))
              | Some v \<Rightarrow> (Inl (OtherExc ''TypeError''), w2)))"

text \<open>
  \<^verbatim>\<open>"iat" in payload\<close>: key membership on a dict, substring on a string, element on a
  list; \<open>None\<close> is the \<^verbatim>\<open>TypeError\<close> on a value that is no container.
\<close>

fun iat_in :: "json \<Rightarrow> bool option" where
  "iat_in (JObj kvs) = Some (''iat'' \<in> set (map fst kvs))"
| "iat_in (JStr s) = Some (str_in ''iat'' s)"
| "iat_in (JList xs) = Some (JStr ''iat'' \<in> set xs)"
| "iat_in v = None"

text \<open>
  \<^verbatim>\<open>int(time.time() * 1000) - (payload["iat"] * 1000)\<close> for the value \<open>v\<close> under
  \<^verbatim>\<open>iat\<close>, with the clock already read: an integer or a boolean gives an integer, a
  float a float; on anything else the subtraction raises a \<^verbatim>\<open>TypeError\<close> (\<open>None\<close>).
\<close>

fun age_of :: "int \<Rightarrow> json \<Rightarrow> real option" where
  "age_of now_ms (JInt i) = Some (of_int (now_ms - i * 1000))"
| "age_of now_ms (JBool b) = Some (of_int (now_ms - (if b then 1 else 0) * 1000))"
| "age_of now_ms (JFloat x) = Some (of_int now_ms - x * 1000)"
| "age_of now_ms v = None"

text \<open>
  \<^verbatim>\<open>_get_token_age\<close>, in milliseconds. Every exception inside is swallowed by the bare
  \<^verbatim>\<open>except\<close> and the age is then \<open>0\<close>: a token that is not a string, a payload
  that does not decode, an \<^verbatim>\<open>iat\<close> that is no number. The clock is read when
  \<^verbatim>\<open>"iat" in payload\<close> holds.
\<close>

definition get_token_age :: "env \<Rightarrow> json \<Rightarrow> world \<Rightarrow> real \<times> world" where
  "get_token_age e token w =
     (case token of
        JStr t \<Rightarrow>
          (let parts = split_dot t in
           if length parts \<ge> 2 then
             (case b64_json e (parts ! 1 @ ''=='') of
                None \<Rightarrow> (0, w)
              | Some payload \<Rightarrow>
                  (if iat_in payload = Some True then
                     (let now_ms = trunc (clock e (clock_reads w) * 1000);
                          w' = w\<lparr>clock_reads := Suc (clock_reads w)\<rparr>
                      in case payload of
                           JObj kvs \<Rightarrow>
                             (case map_of kvs ''iat'' of
                                None \<Rightarrow> (0, w')
                              | Some v \<Rightarrow> (case age_of now_ms v of None \<Rightarrow> (0, w') | Some a \<Rightarrow> (a, w')))
                         | v \<Rightarrow> (0, w'))
                   else (0, w)))
           else (0, w))
      | v \<Rightarrow> (0, w))"

subsection \<open>client.py: proxy and proxy\_async\<close>

text \<open>
  \<open>agent_token\<close> and \<open>proof_payload_override\<close> are \<open>JNull\<close> for Python's \<^verbatim>\<open>None\<close>.
  The token is the caller's, or the one \<^verbatim>\<open>get_token\<close> returns.
\<close>

definition fetch_token :: "env \<Rightarrow> client \<Rightarrow> string \<Rightarrow> json \<Rightarrow> world \<Rightarrow> (exn + json) \<times> world" where
  "fetch_token e c tool agent_token w =
     (if \<not> truthy agent_token then get_token e c [tool] [''read'', ''write''] 10 w
      else (Inr agent_token, w))"

definition proxy ::
  "env \<Rightarrow> client \<Rightarrow> string \<Rightarrow> string \<Rightarrow> json \<Rightarrow> json \<Rightarrow> json \<Rightarrow> world \<Rightarrow> (exn + json) \<times> world" where
  "proxy e c tool action params agent_token proof_payload_override w =
     (case fetch_token e c tool agent_token w of
        (Inl x, w1) \<Rightarrow> (Inl x, w1)
      | (Inr token, w1) \<Rightarrow>
          (case (if truthy token then get_token_age e token w1 else (0, w1)) of
             (token_age, w2) \<Rightarrow>
               (if truthy token \<and> token_age > 24 * 60 * 60 * 1000
                then (Inl (GatewayExc (GatewayTokenError ''Token is too old (older than 24h)'' None)), w2)
                else
                  (let body = JObj ([(''agent_token'', token), (''tool'', JStr tool),
                                     (''action'', JStr action), (''params'', params)]
                                    @ (if current_intent c \<noteq> [] then [(''intent'', JStr (current_intent c))] else [])
                                    @ (if truthy proof_payload_override
                                       then [(''proof_payload'', JStr (json_dumps e proof_payload_override))]
                                       else []))
                   in case make_request e c ''/api/proxy-request'' ''POST'' (Some body) w2 of
                        (Inl x, w3) \<Rightarrow> (Inl x, w3)
                      | (Inr r, w3) \<Rightarrow>
                          (case resp_json r of
                             None \<Rightarrow> (Inl (OtherExc ''JSONDecodeError''), w3)
                           | Some j \<Rightarrow>
                               (case proxy_response_data e j of
                                  Inl x \<Rightarrow> (Inl x, w3)
                                | Inr d \<Rightarrow>
                                    (Inr d,
                                     if header_get (resp_headers r) ''X-Token-Rotation-Recommended'' = Some ''true''
                                     then w3\<lparr>printed := printed w3 @
                                            [''Token rotation recommended! Expires: '' @
                                             (case header_get (resp_headers r) ''X-Token-Expires-At'' of
                                                None \<Rightarrow> ''None'' | Some t \<Rightarrow> t)]\<rparr>
                                     else w3)))))))"

definition proxy_async ::
  "env \<Rightarrow> client \<Rightarrow> string \<Rightarrow> string \<Rightarrow> json \<Rightarrow> json \<Rightarrow> world \<Rightarrow> (exn + json) \<times> world" where
  "proxy_async e c tool action params agent_token w =
     (case fetch_token e c tool agent_token w of
        (Inl x, w1) \<Rightarrow> (Inl x, w1)
      | (Inr token, w1) \<Rightarrow>
          (let body = JObj ([(''agent_token'', token), (''tool'', JStr tool),
                             (''action'', JStr action), (''params'', params),
                             (''async'', JBool True)]
                            @ (if current_intent c \<noteq> [] then [(''intent'', JStr (current_intent c))] else []))
           in case make_request e c ''/api/proxy-request'' ''POST'' (Some body) w1 of
                (Inl x, w2) \<Rightarrow> (Inl x, w2)
              | (Inr r, w2) \<Rightarrow>
                  (case resp_json r of
                     None \<Rightarrow> (Inl (OtherExc ''JSONDecodeError''), w2)
                   | Some (JObj kvs) \<Rightarrow>
                       (case map_of kvs ''job_id'' of
                          None \<Rightarrow> (Inl (OtherExc ''KeyError''), w2)
                        | Some v \<Rightarrow> (Inr (JObj [(''job_id'', v)]), w2))
                   | Some v \<Rightarrow> (Inl (OtherExc ''TypeError''), w2))))"

subsection \<open>Concrete inputs\<close>

text \<open>
  A three-part token whose payload is the base64 of \<^verbatim>\<open>{"iat":1700000000}\<close>, an
  environment whose clock stands 25 hours later, at 1700090000, and whose gateway
  answers every request with status 200 and a job id, a client and the empty world.
\<close>

definition zero_draw :: "int \<Rightarrow> real" where
  "zero_draw a = 0"

definition demo_token :: string where
  "demo_token = ''eyJhbGciOiJub25lIn0.eyJpYXQiOjE3MDAwMDAwMDB9.c2ln''"

definition demo_response :: response where
  "demo_response =
     \<lparr>resp_status = 200, content = ''ok'',
      resp_json = Some (JObj [(''job_id'', JStr ''job-1'')]), resp_headers = []\<rparr>"

definition demo_env :: env where
  "demo_env =
     \<lparr>transport = (\<lambda>k req. Response demo_response),
      clock = (\<lambda>k. 1700090000),
      b64_json = (\<lambda>x. if x = ''eyJpYXQiOjE3MDAwMDAwMDB9==''
                      then Some (JObj [(''iat'', JInt 1700000000)]) else None),
      draw = (\<lambda>k. zero_draw),
      correlation = (\<lambda>k. ''req_1700090000000_abcdefghi''),
      isoformat = (\<lambda>t. ''2023-11-15T23:23:20''),
      json_dumps = (\<lambda>v. ''null''),
      proxy_response_data = (\<lambda>v. Inr v)\<rparr>"

definition demo_client :: client where
  "demo_client =
     \<lparr>base_url = ''http://localhost:8000'', agent_id = ''agent-1'', agent_private_key_pem = ''pem'',
      default_intent = None, timeout_ms = 6000, current_intent = []\<rparr>"

definition world0 :: world where
  "world0 = \<lparr>sent = [], clock_reads = 0, waited = [], printed = []\<rparr>"

section \<open>Properties\<close>

subsection \<open>The error classifier\<close>

lemma starts_with_iff: "starts_with sub s \<longleftrightarrow> (\<exists>q. s = sub @ q)"
  by (induction sub s rule: starts_with.induct) auto

text \<open>\<open>str_in\<close> is containment as a contiguous block.\<close>

lemma str_in_iff: "str_in sub s \<longleftrightarrow> (\<exists>p q. s = p @ sub @ q)"
proof (induction s)
  case Nil
  then show ?case by auto
next
  case (Cons c cs)
  show ?case
  proof
    assume "str_in sub (c # cs)"
    then consider "starts_with sub (c # cs)" | "str_in sub cs" by auto
    then show "\<exists>p q. c # cs = p @ sub @ q"
    proof cases
      case 1
      then obtain q where "c # cs = sub @ q" unfolding starts_with_iff by blast
      then have "c # cs = [] @ sub @ q" by simp
      then show ?thesis by blast
    next
      case 2
      with Cons.IH obtain p q where "cs = p @ sub @ q" by blast
      then have "c # cs = (c # p) @ sub @ q" by simp
      then show ?thesis by blast
    qed
  next
    assume "\<exists>p q. c # cs = p @ sub @ q"
    then obtain p q where pq: "c # cs = p @ sub @ q" by blast
    show "str_in sub (c # cs)"
    proof (cases p)
      case Nil
      with pq have "starts_with sub (c # cs)" unfolding starts_with_iff by auto
      then show ?thesis by simp
    next
      case (Cons a p')
      with pq have "cs = p' @ sub @ q" by simp
      with Cons.IH have "str_in sub cs" by blast
      then show ?thesis by simp
    qed
  qed
qed

text \<open>
  C6. For every status code and message the classifier returns one error, fixed by
  the status: 401 and 403 give an Auth error; 429 gives a RateLimit error (for an
  absent, empty or integer Retry-After header; the other headers are the matter of
  C7); 400 gives a Policy error when the lower-cased message contains \<^verbatim>\<open>policy\<close> or
  \<^verbatim>\<open>scope\<close> and a Generic error with status 400 otherwise; 502, 503 and 504 give an
  Upstream error; every other status gives a Generic error with the status and the
  message. So \<^verbatim>\<open>scope exceeded\<close> at 400 is a Policy error and \<^verbatim>\<open>bad request\<close> at 400 a
  Generic one.
\<close>

theorem create_error_from_response_cases:
  "(sc = 401 \<or> sc = 403 \<longrightarrow>
      create_error_from_response sc msg ra = Inr (GatewayAuthError msg (Some sc)))
 \<and> (sc = 429 \<and> (ra = None \<or> ra = Some []) \<longrightarrow>
      create_error_from_response sc msg ra = Inr (GatewayRateLimitError msg None (Some 429)))
 \<and> (sc = 429 \<and> ra = Some h \<and> h \<noteq> [] \<and> py_int h = Some n \<longrightarrow>
      create_error_from_response sc msg ra = Inr (GatewayRateLimitError msg (Some n) (Some 429)))
 \<and> (sc = 400 \<and> (str_in ''policy'' (lower msg) \<or> str_in ''scope'' (lower msg)) \<longrightarrow>
      create_error_from_response sc msg ra = Inr (GatewayPolicyError msg (Some 400)))
 \<and> (sc = 400 \<and> \<not> str_in ''policy'' (lower msg) \<and> \<not> str_in ''scope'' (lower msg) \<longrightarrow>
      create_error_from_response sc msg ra = Inr (GatewayError msg (Some 400) None))
 \<and> (sc = 502 \<or> sc = 503 \<or> sc = 504 \<longrightarrow>
      create_error_from_response sc msg ra = Inr (GatewayUpstreamError msg (Some sc)))
 \<and> (sc \<notin> {400, 401, 403, 429, 502, 503, 504} \<longrightarrow>
      create_error_from_response sc msg ra = Inr (GatewayError msg (Some sc) None))
 \<and> create_error_from_response 400 ''scope exceeded'' ra
      = Inr (GatewayPolicyError ''scope exceeded'' (Some 400))
 \<and> create_error_from_response 400 ''bad request'' ra
      = Inr (GatewayError ''bad request'' (Some 400) None)"
  by (auto simp: create_error_from_response_def lower_def lower_char_def)

theorem create_error_from_response_cases_witness:
  "create_error_from_response 400 ''Outside token SCOPE'' None
     = Inr (GatewayPolicyError ''Outside token SCOPE'' (Some 400))
 \<and> kind (GatewayPolicyError ''Outside token SCOPE'' (Some 400)) = Policy
 \<and> create_error_from_response 403 ''forbidden'' None = Inr (GatewayAuthError ''forbidden'' (Some 403))
 \<and> create_error_from_response 429 ''slow down'' (Some ''120'')
     = Inr (GatewayRateLimitError ''slow down'' (Some 120) (Some 429))
 \<and> create_error_from_response 503 ''unavailable'' None
     = Inr (GatewayUpstreamError ''unavailable'' (Some 503))
 \<and> create_error_from_response 418 ''teapot'' None = Inr (GatewayError ''teapot'' (Some 418) None)"
  using create_error_from_response_cases [of 400 "''Outside token SCOPE''" None "[]" 0]
        create_error_from_response_cases [of 403 "''forbidden''" None "[]" 0]
        create_error_from_response_cases [of 429 "''slow down''" "Some ''120''" "''120''" 120]
        create_error_from_response_cases [of 503 "''unavailable''" None "[]" 0]
        create_error_from_response_cases [of 418 "''teapot''" None "[]" 0]
  by (simp add: lower_def lower_char_def GatewayPolicyError_def py_int_def strip_def is_space_def
        unsigned_int_def is_digit_def digits_value_def digit_val_def)

text \<open>
  C7. At status 429 a Retry-After header that is not an integer, such as \<^verbatim>\<open>abc\<close> or an
  HTTP date, does not give a RateLimit error with \<open>retry_after\<close> unset: \<^verbatim>\<open>int\<close> raises a
  \<^verbatim>\<open>ValueError\<close>, which leaves the classifier. An integer header sets the field and an
  absent one leaves it unset.
\<close>

theorem retry_after_malformed_raises:
  "create_error_from_response 429 ''Too Many Requests'' (Some ''abc'') = Inl (OtherExc ''ValueError'')
 \<and> create_error_from_response 429 ''Too Many Requests'' (Some ''Wed, 21 Oct 2015 07:28:00 GMT'')
      = Inl (OtherExc ''ValueError'')
 \<and> create_error_from_response 429 ''Too Many Requests'' (Some ''120'')
      = Inr (GatewayRateLimitError ''Too Many Requests'' (Some 120) (Some 429))
 \<and> create_error_from_response 429 ''Too Many Requests'' None
      = Inr (GatewayRateLimitError ''Too Many Requests'' None (Some 429))"
  by (simp add: create_error_from_response_def py_int_def strip_def is_space_def
        unsigned_int_def is_digit_def digits_value_def digit_val_def)

subsection \<open>The retryability predicate\<close>

text \<open>
  C5, as the claim states it, fails: an Auth error that carries status 500 is
  retryable.
\<close>

theorem auth_error_500_retryable:
  "kind (GatewayAuthError ''internal'' (Some 500)) = Auth
 \<and> is_retryable_error (GatewayAuthError ''internal'' (Some 500))"
  by (simp add: is_retryable_error_def GatewayAuthError_def GatewayError_def)

text \<open>
  C5, amended. A RateLimit error is never retryable, whatever its status. Any other
  error is retryable exactly when its code is \<^verbatim>\<open>NETWORK_ERROR\<close>, or it is an Upstream
  error, or its status code is at least 500. So Network and Upstream errors are
  retryable, and an Auth, Policy or Token error is retryable exactly when it carries a
  status code of at least 500.
\<close>

theorem is_retryable_error_cases:
  "is_retryable_error e =
     (kind e \<noteq> RateLimit \<and>
      (code e = Some ''NETWORK_ERROR'' \<or> kind e = Upstream \<or>
       (case status_code e of None \<Rightarrow> False | Some sc \<Rightarrow> 500 \<le> sc)))
 \<and> \<not> is_retryable_error (GatewayRateLimitError msg ra st)
 \<and> is_retryable_error (GatewayNetworkError msg orig)
 \<and> is_retryable_error (GatewayError msg None (Some ''NETWORK_ERROR''))
 \<and> is_retryable_error (GatewayUpstreamError msg st)
 \<and> is_retryable_error (GatewayAuthError msg st) = (case st of None \<Rightarrow> False | Some sc \<Rightarrow> 500 \<le> sc)
 \<and> is_retryable_error (GatewayPolicyError msg st) = (case st of None \<Rightarrow> False | Some sc \<Rightarrow> 500 \<le> sc)
 \<and> is_retryable_error (GatewayTokenError msg st) = (case st of None \<Rightarrow> False | Some sc \<Rightarrow> 500 \<le> sc)
 \<and> is_retryable_error (GatewayError msg st None) = (case st of None \<Rightarrow> False | Some sc \<Rightarrow> 500 \<le> sc)"
  by (auto simp: is_retryable_error_def GatewayError_def GatewayAuthError_def GatewayPolicyError_def
        GatewayRateLimitError_def GatewayUpstreamError_def GatewayNetworkError_def
        GatewayTokenError_def split: option.splits)

theorem is_retryable_error_cases_witness:
  "\<not> is_retryable_error (GatewayRateLimitError ''slow down'' (Some 30) (Some 503))
 \<and> \<not> is_retryable_error (GatewayAuthError ''denied'' (Some 401))
 \<and> \<not> is_retryable_error (GatewayPolicyError ''scope exceeded'' (Some 400))
 \<and> \<not> is_retryable_error (GatewayTokenError ''Token is too old (older than 24h)'' None)
 \<and> is_retryable_error (GatewayError ''boom'' (Some 500) None)"
  using is_retryable_error_cases [of "GatewayError ''boom'' (Some 500) None" "''slow down''" "Some 30" "Some 503" None]
        is_retryable_error_cases [of "GatewayError ''boom'' (Some 500) None" "''denied''" None "Some 401" None]
        is_retryable_error_cases [of "GatewayError ''boom'' (Some 500) None" "''scope exceeded''" None "Some 400" None]
        is_retryable_error_cases [of "GatewayError ''boom'' (Some 500) None" "''Token is too old (older than 24h)''" None None None]
        is_retryable_error_cases [of "GatewayError ''boom'' (Some 500) None" "''boom''" None "Some 500" None]
  by (simp add: GatewayError_def)

subsection \<open>The backoff delay\<close>



text \<open>
  C9. With jitter enabled, a random number \<open>r\<close> in \<open>[0, 1)\<close> and a capped delay
  \<open>d \<ge> 0\<close>, the delay is \<open>d + d * 0.25 * (r - 0.5)\<close> and lies between \<open>0.875 * d\<close>
  and \<open>1.125 * d\<close>: the jitter is 12.5 per cent of \<open>d\<close> either way, not the 25 per
  cent of the comment in the source, and \<open>0.75 * d\<close> is not reached for \<open>d > 0\<close>.
\<close>

theorem calculate_delay_jitter_range:
  assumes "jitter options" and "0 \<le> r" and "r < 1"
      and "d = min (base_delay options * 2 powi i) (max_delay options)" and "0 \<le> d"
  shows "calculate_delay i options r = d + d * 0.25 * (r - 0.5)
       \<and> 0.875 * d \<le> calculate_delay i options r
       \<and> calculate_delay i options r \<le> 1.125 * d"
proof -
  have j: "calculate_delay i options r = max 0 (d + d * 0.25 * (r - 0.5))"
    using assms(1,4) by (simp add: calculate_delay_def Let_def)
  have lo: "- (0.125 * d) \<le> d * 0.25 * (r - 0.5)"
    using assms(2,5) by (simp add: algebra_simps mult_left_mono)
  have hi: "d * 0.25 * (r - 0.5) \<le> 0.125 * d"
    using assms(3,5) by (simp add: algebra_simps mult_left_mono)
  show ?thesis using j lo hi assms(5) by (auto simp: max_def)
qed

theorem calculate_delay_jitter_range_witness:
  "jitter RetryOptions
 \<and> calculate_delay 0 RetryOptions 0 = 7 / 8
 \<and> \<not> calculate_delay 0 RetryOptions 0 \<le> 3 / 4"
  using calculate_delay_jitter_range [of RetryOptions 0 1 0]
  by (simp add: RetryOptions_def)

subsection \<open>The retry pipeline\<close>












subsection \<open>The client: token age and dispatch\<close>

text \<open>Each physical attempt hands its request to the transport and logs it.\<close>

lemma request_once_logs: "sent (snd (request_once e req w)) = sent w @ [req]"
  by (simp add: request_once_def Let_def split: http_result.splits sum.splits)



lemma split_demo_token:
  "split_dot demo_token = [''eyJhbGciOiJub25lIn0'', ''eyJpYXQiOjE3MDAwMDAwMDB9'', ''c2ln'']"
  by (simp add: demo_token_def)

lemma get_token_age_demo:
  "get_token_age demo_env (JStr demo_token) world0 = (90000000, world0\<lparr>clock_reads := 1\<rparr>)"
  by (simp add: get_token_age_def split_demo_token demo_env_def world0_def trunc_def)

lemma request_once_demo:
  "request_once demo_env req w = (Inr demo_response, w\<lparr>sent := sent w @ [req]\<rparr>)"
  by (simp add: request_once_def demo_env_def demo_response_def is_success_def)

lemma make_request_demo:
  "make_request demo_env demo_client path m body world0 =
     (Inr demo_response,
      world0\<lparr>sent := [\<lparr>url = ''http://localhost:8000'' @ path, http_method = m, json_body = body,
                        headers = [(''X-Correlation-Id'', ''req_1700090000000_abcdefghi'')]\<rparr>]\<rparr>)"
  by (simp add: make_request_def with_retry_def RetryOptions_def eval_nat_numeral request_once_demo)
     (simp add: demo_env_def demo_client_def world0_def)



text \<open>
  C1. The token \<open>demo_token\<close> carries an issue time 25 hours before the clock: its
  age is 90000000 ms. \<open>proxy\<close> raises the Token error and sends nothing.
  \<open>proxy_async\<close> has no age check: it hands the gateway a request whose body carries
  that token, and returns the job id.
\<close>

theorem proxy_async_sends_stale_token:
  "get_token_age demo_env (JStr demo_token) world0 = (90000000, world0\<lparr>clock_reads := 1\<rparr>)
 \<and> proxy demo_env demo_client ''gmail_send'' ''send'' (JObj []) (JStr demo_token) JNull world0
     = (Inl (GatewayExc (GatewayTokenError ''Token is too old (older than 24h)'' None)),
        world0\<lparr>clock_reads := 1\<rparr>)
 \<and> proxy_async demo_env demo_client ''gmail_send'' ''send'' (JObj []) (JStr demo_token) world0
     = (Inr (JObj [(''job_id'', JStr ''job-1'')]),
        world0\<lparr>sent :=
          [\<lparr>url = ''http://localhost:8000/api/proxy-request'', http_method = ''POST'',
            json_body = Some (JObj [(''agent_token'', JStr demo_token), (''tool'', JStr ''gmail_send''),
                                    (''action'', JStr ''send''), (''params'', JObj []),
                                    (''async'', JBool True)]),
            headers = [(''X-Correlation-Id'', ''req_1700090000000_abcdefghi'')]\<rparr>]\<rparr>)"
proof -
  have ne: "demo_token \<noteq> []" by (simp add: demo_token_def)
  have p: "proxy demo_env demo_client ''gmail_send'' ''send'' (JObj []) (JStr demo_token) JNull world0
     = (Inl (GatewayExc (GatewayTokenError ''Token is too old (older than 24h)'' None)),
        world0\<lparr>clock_reads := 1\<rparr>)"
    using ne by (simp add: proxy_def fetch_token_def get_token_age_demo)
  have a: "proxy_async demo_env demo_client ''gmail_send'' ''send'' (JObj []) (JStr demo_token) world0
     = (Inr (JObj [(''job_id'', JStr ''job-1'')]),
        world0\<lparr>sent :=
          [\<lparr>url = ''http://localhost:8000/api/proxy-request'', http_method = ''POST'',
            json_body = Some (JObj [(''agent_token'', JStr demo_token), (''tool'', JStr ''gmail_send''),
                                    (''action'', JStr ''send''), (''params'', JObj []),
                                    (''async'', JBool True)]),
            headers = [(''X-Correlation-Id'', ''req_1700090000000_abcdefghi'')]\<rparr>]\<rparr>)"
    using ne by (simp add: proxy_async_def fetch_token_def make_request_demo)
                (simp add: demo_client_def demo_response_def)
  show ?thesis using get_token_age_demo p a by blast
qed

end
